theory Spec2Isabelle
  imports Complex_Main
begin

section \<open>Python values, exceptions and library functions\<close>

text \<open>
  The grader's reply is decoded by \<^verbatim>\<open>json.loads\<close>, so the values that reach the routing
  rule are arbitrary JSON values. A JSON object is a dict, modelled as a map from keys to
  values. A Python float is modelled by the real number it denotes (comparison of two
  floats is exact on the numbers they denote); the non-finite floats are not modelled.
\<close>

datatype pyval =
    PNone
  | PBool bool
  | PInt int
  | PFloat real
  | PStr string
  | PList "pyval list"
  | PDict "string \<Rightarrow> pyval option"

text \<open>
  Exceptions are values. \<open>RemoteError\<close> stands for whatever a remote collaborator
  (completion client, web search client) raises.
\<close>

datatype exn =
    RemoteError string
  | JSONDecodeError
  | AttributeError
  | TypeError
  | ValueError
  | OverflowError
  | KeyError string
  | ValidationError

text \<open>The line feed, and \<^verbatim>\<open>sep.join(parts)\<close>.\<close>

definition nl :: string where
  "nl = [CHR 0x0A]"

fun join :: "string \<Rightarrow> string list \<Rightarrow> string" where
  "join sep [] = []"
| "join sep [p] = p"
| "join sep (p # q # ps) = p @ sep @ join sep (q # ps)"

text \<open>\<^verbatim>\<open>str(n)\<close> for a natural number: its decimal digits.\<close>

fun str_nat :: "nat \<Rightarrow> string" where
  "str_nat n =
     (if n < 10 then [char_of (48 + n)]
      else str_nat (n div 10) @ [char_of (48 + n mod 10)])"

declare str_nat.simps [simp del]

text \<open>
  \<^verbatim>\<open>v == "literal"\<close>: a value equals a string literal exactly when it is that string;
  comparing a value of another type with a string is False and does not raise.
\<close>

definition py_eq_str :: "pyval \<Rightarrow> string \<Rightarrow> bool" where
  "py_eq_str v s = (v = PStr s)"

text \<open>
  \<^verbatim>\<open>v < t\<close> for a float \<open>t\<close>: defined on the numeric types (bool is a subtype of int,
  with True = 1 and False = 0), a TypeError on None, strings, lists and dicts.
\<close>

fun py_num :: "pyval \<Rightarrow> real option" where
  "py_num (PBool b) = Some (if b then 1 else 0)"
| "py_num (PInt i) = Some (of_int i)"
| "py_num (PFloat x) = Some x"
| "py_num _ = None"

definition py_lt_float :: "pyval \<Rightarrow> real \<Rightarrow> exn + bool" where
  "py_lt_float v t = (case py_num v of None \<Rightarrow> Inl TypeError | Some x \<Rightarrow> Inr (x < t))"

text \<open>
  \<^verbatim>\<open>d.get(key, default)\<close>: only a dict has the method; on any other JSON value the
  attribute lookup raises AttributeError. A key that is present with the value null
  yields None, not the default.
\<close>

fun py_get :: "pyval \<Rightarrow> string \<Rightarrow> pyval \<Rightarrow> exn + pyval" where
  "py_get (PDict d) k dflt = Inr (case d k of None \<Rightarrow> dflt | Some v \<Rightarrow> v)"
| "py_get _ k dflt = Inl AttributeError"

text \<open>
  \<^verbatim>\<open>f"{v:.2f}"\<close> is defined on the numeric types only; the log line of \<^verbatim>\<open>execute_crag\<close>
  formats the relevance score this way. Only whether it raises matters: the text is logged
  and dropped. An int is converted to a float first, rounding to the nearest float; that
  raises OverflowError when the int is beyond the range of the floats, whose largest is
  \<open>2 ^ 1024 - 2 ^ 971\<close>: from the midpoint \<open>2 ^ 1024 - 2 ^ 970\<close> above it on, in
  either sign. A float is formatted as it is, and a bool is the int 0 or 1.
\<close>

definition float_overflow_bound :: int where
  "float_overflow_bound = 2 ^ 1024 - 2 ^ 970"

fun format_2f :: "pyval \<Rightarrow> exn + unit" where
  "format_2f (PBool b) = Inr ()"
| "format_2f (PInt i) = (if abs i < float_overflow_bound then Inr () else Inl OverflowError)"
| "format_2f (PFloat x) = Inr ()"
| "format_2f (PStr s) = Inl ValueError"
| "format_2f _ = Inl TypeError"


section \<open>Data model\<close>

text \<open>\<^verbatim>\<open>app/config.py\<close>: class Settings, with its defaults.\<close>

record Settings =
  openai_api_key :: string
  tavily_api_key :: string
  qdrant_url :: string
  qdrant_api_key :: "string option"
  qdrant_collection_name :: string
  embedding_model :: string
  llm_model :: string
  embedding_dimensions :: int
  crag_relevance_threshold :: real
  crag_ambiguous_threshold :: real
  reflection_min_score :: real
  max_reflection_retries :: int
  top_k_results :: int
  upload_dir :: string
  max_file_size :: int

definition default_Settings :: "string \<Rightarrow> string \<Rightarrow> Settings" where
  "default_Settings openai_key tavily_key =
     \<lparr> openai_api_key = openai_key,
       tavily_api_key = tavily_key,
       qdrant_url = ''http://localhost:6333'',
       qdrant_api_key = None,
       qdrant_collection_name = ''crag_documents'',
       embedding_model = ''text-embedding-3-small'',
       llm_model = ''gpt-4o-mini'',
       embedding_dimensions = 1536,
       crag_relevance_threshold = 0.7,
       crag_ambiguous_threshold = 0.5,
       reflection_min_score = 0.8,
       max_reflection_retries = 2,
       top_k_results = 5,
       upload_dir = ''uploads'',
       max_file_size = 50 * 1024 * 1024 \<rparr>"

text \<open>
  The classes of \<^verbatim>\<open>app.models\<close> are not among the sources; their fields are taken from
  the constructor calls in \<^verbatim>\<open>crag.py\<close> and \<^verbatim>\<open>retrieval.py\<close>. The chunk metadata is
  opaque to the pipeline (type parameter \<open>'m\<close>). An evaluation keeps the three graded
  fields as the values the constructor was given.
\<close>

type_synonym datetime = nat

record 'm RetrievedChunk =
  content :: string
  metadata :: 'm
  score :: real

record CRAGEvaluation =
  relevance_score :: pyval
  relevance_label :: pyval
  confidence :: pyval
  evaluation_method :: string
  needs_web_search :: bool
  evaluated_at :: datetime

text \<open>A web result is a dict; the synthesizer reads its keys \<^verbatim>\<open>title\<close> and \<^verbatim>\<open>content\<close>.\<close>

type_synonym web_result = "string \<Rightarrow> string option"

record 'm CRAGResult =
  used_web_search :: bool
  evaluation :: CRAGEvaluation
  retrieved_chunks :: "'m RetrievedChunk list"
  web_results :: "web_result list option"

text \<open>
  The service object and what it reaches: its settings, the two operations of the
  completion client (\<^verbatim>\<open>self.llm\<close>), the operation of the web search client
  (\<^verbatim>\<open>self.web_search\<close>), the library calls \<^verbatim>\<open>json.loads\<close> and \<^verbatim>\<open>datetime.utcnow\<close>,
  and the validation that the constructors of the two result classes of \<^verbatim>\<open>app.models\<close>
  perform (a constructor that rejects its arguments raises). All of them are parameters:
  the theorems hold for every collaborator and every validation.
\<close>

record 'm CRAGService =
  settings :: Settings
  generate_with_json :: "string \<Rightarrow> string \<Rightarrow> exn + string"
  generate :: "string \<Rightarrow> string \<Rightarrow> nat \<Rightarrow> exn + string"
  search :: "string \<Rightarrow> nat \<Rightarrow> exn + web_result list"
  json_loads :: "string \<Rightarrow> exn + pyval"
  utcnow :: datetime
  evaluation_valid :: "CRAGEvaluation \<Rightarrow> bool"
  result_valid :: "'m CRAGResult \<Rightarrow> bool"

definition new_CRAGEvaluation :: "'m CRAGService \<Rightarrow> CRAGEvaluation \<Rightarrow> exn + CRAGEvaluation" where
  "new_CRAGEvaluation self ev = (if evaluation_valid self ev then Inr ev else Inl ValidationError)"

definition new_CRAGResult :: "'m CRAGService \<Rightarrow> 'm CRAGResult \<Rightarrow> exn + 'm CRAGResult" where
  "new_CRAGResult self r = (if result_valid self r then Inr r else Inl ValidationError)"


section \<open>evaluate_relevance\<close>

text \<open>The condensed context: each chunk cut to its first 300 characters, labelled from 1.\<close>

fun chunk_lines :: "nat \<Rightarrow> 'm RetrievedChunk list \<Rightarrow> string list" where
  "chunk_lines i [] = []"
| "chunk_lines i (chunk # chunks) =
     (''Chunk '' @ str_nat (i + 1) @ '': '' @ take 300 (content chunk)) # chunk_lines (Suc i) chunks"

definition relevance_context :: "'m RetrievedChunk list \<Rightarrow> string" where
  "relevance_context chunks = join (nl @ nl) (chunk_lines 0 chunks)"

definition relevance_prompt :: "string \<Rightarrow> 'm RetrievedChunk list \<Rightarrow> string" where
  \<open>relevance_prompt query chunks =
     ''Evaluate if the following retrieved documents are relevant to answer the query.'' @ nl
     @ nl
     @ ''Query: '' @ query @ nl
     @ nl
     @ ''Retrieved Documents:'' @ nl
     @ relevance_context chunks @ nl
     @ nl
     @ ''Provide evaluation as JSON:'' @ nl
     @ ''{'' @ nl
     @ ''    "relevance_score": <float 0.0-1.0>,'' @ nl
     @ ''    "relevance_label": "<relevant|ambiguous|irrelevant>",'' @ nl
     @ ''    "confidence": <float 0.0-1.0>,'' @ nl
     @ ''    "reasoning": "<brief explanation>"'' @ nl
     @ ''}'' @ nl
     @ nl
     @ ''Scoring guide:'' @ nl
     @ ''- relevant (0.7-1.0): Documents directly answer the query'' @ nl
     @ ''- ambiguous (0.4-0.7): Partial information, may need web search'' @ nl
     @ ''- irrelevant (0.0-0.4): Documents don't help answer the query'' @ nl\<close>

definition relevance_system_prompt :: string where
  "relevance_system_prompt =
     ''You are a relevance evaluator for RAG systems. Always respond with valid JSON.''"

text \<open>
  The routing rule of lines 61-64, with Python's short-circuit evaluation: the score is
  compared only when the label is \<^verbatim>\<open>"ambiguous"\<close>.
\<close>

definition routing_decision :: "pyval \<Rightarrow> pyval \<Rightarrow> real \<Rightarrow> exn + bool" where
  "routing_decision label sc threshold =
     (if py_eq_str label ''irrelevant'' then Inr True
      else if py_eq_str label ''ambiguous'' then py_lt_float sc threshold
      else Inr False)"

text \<open>The body of the \<^verbatim>\<open>try\<close> block: any exception raised in it leaves it as \<open>Inl\<close>.\<close>

definition evaluate_relevance_try :: "'m CRAGService \<Rightarrow> string \<Rightarrow> exn + CRAGEvaluation" where
  "evaluate_relevance_try self prompt =
     (case generate_with_json self prompt relevance_system_prompt of
        Inl e \<Rightarrow> Inl e
      | Inr response \<Rightarrow>
     (case json_loads self response of
        Inl e \<Rightarrow> Inl e
      | Inr eval_data \<Rightarrow>
     (case py_get eval_data ''relevance_score'' (PFloat 0.5) of
        Inl e \<Rightarrow> Inl e
      | Inr rscore \<Rightarrow>
     (case py_get eval_data ''relevance_label'' (PStr ''ambiguous'') of
        Inl e \<Rightarrow> Inl e
      | Inr rlabel \<Rightarrow>
     (case py_get eval_data ''confidence'' (PFloat 0.7) of
        Inl e \<Rightarrow> Inl e
      | Inr conf \<Rightarrow>
     (case routing_decision rlabel rscore (crag_ambiguous_threshold (settings self)) of
        Inl e \<Rightarrow> Inl e
      | Inr needs \<Rightarrow>
          new_CRAGEvaluation self
            \<lparr> relevance_score = rscore,
              relevance_label = rlabel,
              confidence = conf,
              evaluation_method = ''llm_grader'',
              needs_web_search = needs,
              evaluated_at = utcnow self \<rparr>))))))"

text \<open>The evaluation built by the \<^verbatim>\<open>except\<close> handler.\<close>

definition fallback_evaluation :: "datetime \<Rightarrow> CRAGEvaluation" where
  "fallback_evaluation now =
     \<lparr> relevance_score = PFloat 0.5,
       relevance_label = PStr ''ambiguous'',
       confidence = PFloat 0.5,
       evaluation_method = ''llm_grader'',
       needs_web_search = True,
       evaluated_at = now \<rparr>"

text \<open>
  \<^verbatim>\<open>except Exception\<close> catches every exception of the \<^verbatim>\<open>try\<close> block; the handler logs
  it and constructs the fallback.
\<close>

definition evaluate_relevance ::
  "'m CRAGService \<Rightarrow> string \<Rightarrow> 'm RetrievedChunk list \<Rightarrow> exn + CRAGEvaluation" where
  "evaluate_relevance self query chunks =
     (case evaluate_relevance_try self (relevance_prompt query chunks) of
        Inr ev \<Rightarrow> Inr ev
      | Inl e \<Rightarrow> new_CRAGEvaluation self (fallback_evaluation (utcnow self)))"


section \<open>execute_crag\<close>

text \<open>
  One pass: evaluate, log the evaluation (the score is formatted with two decimals),
  search the web when the evaluation asks for it, and build the result. Nothing here is
  caught: an exception of the search leaves the function.
\<close>

definition execute_crag ::
  "'m CRAGService \<Rightarrow> string \<Rightarrow> 'm RetrievedChunk list \<Rightarrow> exn + 'm CRAGResult" where
  "execute_crag self query chunks =
     (case evaluate_relevance self query chunks of
        Inl e \<Rightarrow> Inl e
      | Inr ev \<Rightarrow>
     (case format_2f (relevance_score ev) of
        Inl e \<Rightarrow> Inl e
      | Inr _ \<Rightarrow>
          if needs_web_search ev then
            (case search self query 3 of
               Inl e \<Rightarrow> Inl e
             | Inr results \<Rightarrow>
                 new_CRAGResult self
                   \<lparr> used_web_search = True,
                     evaluation = ev,
                     retrieved_chunks = chunks,
                     web_results = Some results \<rparr>)
          else
            new_CRAGResult self
              \<lparr> used_web_search = False,
                evaluation = ev,
                retrieved_chunks = chunks,
                web_results = None \<rparr>))"

text \<open>
  The pipeline as section 4.2 of the specification words it, for comparison with the
  code: the same pass, with the web search bounded by a configured option
  \<open>max_web_results\<close>. The class Settings declares no such option, so it is an argument
  here.
\<close>

definition spec_execute_crag ::
  "nat \<Rightarrow> 'm CRAGService \<Rightarrow> string \<Rightarrow> 'm RetrievedChunk list \<Rightarrow> exn + 'm CRAGResult" where
  "spec_execute_crag max_web_results self query chunks =
     (case evaluate_relevance self query chunks of
        Inl e \<Rightarrow> Inl e
      | Inr ev \<Rightarrow>
     (case format_2f (relevance_score ev) of
        Inl e \<Rightarrow> Inl e
      | Inr _ \<Rightarrow>
          if needs_web_search ev then
            (case search self query max_web_results of
               Inl e \<Rightarrow> Inl e
             | Inr results \<Rightarrow>
                 new_CRAGResult self
                   \<lparr> used_web_search = True,
                     evaluation = ev,
                     retrieved_chunks = chunks,
                     web_results = Some results \<rparr>)
          else
            new_CRAGResult self
              \<lparr> used_web_search = False,
                evaluation = ev,
                retrieved_chunks = chunks,
                web_results = None \<rparr>))"


section \<open>generate_answer_with_crag\<close>

text \<open>
  The three loops that append to \<^verbatim>\<open>context_parts\<close>, numbering from 1. Indexing a web
  result with a key it does not have raises KeyError; the title is read before the
  content.
\<close>

fun source_parts :: "nat \<Rightarrow> web_result list \<Rightarrow> exn + string list" where
  "source_parts i [] = Inr []"
| "source_parts i (result # results) =
     (case result ''title'' of
        None \<Rightarrow> Inl (KeyError ''title'')
      | Some title \<Rightarrow>
     (case result ''content'' of
        None \<Rightarrow> Inl (KeyError ''content'')
      | Some text \<Rightarrow>
     (case source_parts (Suc i) results of
        Inl e \<Rightarrow> Inl e
      | Inr parts \<Rightarrow>
          Inr ((nl @ ''Source '' @ str_nat i @ '' ('' @ title @ ''):'' @ nl @ text) # parts))))"

fun document_parts :: "nat \<Rightarrow> 'm RetrievedChunk list \<Rightarrow> string list" where
  "document_parts i [] = []"
| "document_parts i (chunk # chunks) =
     (nl @ ''Document '' @ str_nat i @ '':'' @ nl @ content chunk) # document_parts (Suc i) chunks"

fun web_source_parts :: "nat \<Rightarrow> web_result list \<Rightarrow> exn + string list" where
  "web_source_parts i [] = Inr []"
| "web_source_parts i (result # results) =
     (case result ''content'' of
        None \<Rightarrow> Inl (KeyError ''content'')
      | Some text \<Rightarrow>
     (case web_source_parts (Suc i) results of
        Inl e \<Rightarrow> Inl e
      | Inr parts \<Rightarrow>
          Inr ((nl @ ''Web Source '' @ str_nat i @ '':'' @ nl @ text) # parts)))"

text \<open>Truthiness of \<^verbatim>\<open>crag_result.web_results\<close>: None and the empty list are false.\<close>

fun truthy :: "web_result list option \<Rightarrow> bool" where
  "truthy None = False"
| "truthy (Some results) = (results \<noteq> [])"

definition context_parts :: "'m CRAGResult \<Rightarrow> exn + string list" where
  "context_parts crag_result =
     (if py_eq_str (relevance_label (evaluation crag_result)) ''irrelevant'' then
        (if truthy (web_results crag_result) then
           (case source_parts 1 (case web_results crag_result of None \<Rightarrow> [] | Some rs \<Rightarrow> rs) of
              Inl e \<Rightarrow> Inl e
            | Inr parts \<Rightarrow> Inr (''=== Web Search Results ==='' # parts))
         else Inr [])
      else
        (if used_web_search crag_result \<and> truthy (web_results crag_result) then
           (case web_source_parts 1 (case web_results crag_result of None \<Rightarrow> [] | Some rs \<Rightarrow> rs) of
              Inl e \<Rightarrow> Inl e
            | Inr parts \<Rightarrow>
                Inr ((''=== Retrieved Documents ==='' # document_parts 1 (retrieved_chunks crag_result))
                     @ (nl @ nl @ ''=== Additional Web Information ==='') # parts))
         else
           Inr (''=== Retrieved Documents ==='' # document_parts 1 (retrieved_chunks crag_result))))"

definition answer_context :: "'m CRAGResult \<Rightarrow> exn + string" where
  "answer_context crag_result =
     (case context_parts crag_result of Inl e \<Rightarrow> Inl e | Inr parts \<Rightarrow> Inr (join nl parts))"

definition answer_prompt :: "string \<Rightarrow> 'm CRAGResult \<Rightarrow> exn + string" where
  \<open>answer_prompt query crag_result =
     (case answer_context crag_result of
        Inl e \<Rightarrow> Inl e
      | Inr context \<Rightarrow>
          Inr (''Answer the following query using the provided context.'' @ nl
               @ nl
               @ ''Query: '' @ query @ nl
               @ nl
               @ ''Context:'' @ nl
               @ context @ nl
               @ nl
               @ ''Provide a clear, accurate answer based on the context. If the context doesn't fully answer the query, acknowledge what's missing.''))\<close>

definition answer_system_prompt :: string where
  "answer_system_prompt =
     ''You are a helpful assistant that answers questions based on provided context.''"

definition generate_answer_with_crag ::
  "'m CRAGService \<Rightarrow> string \<Rightarrow> 'm CRAGResult \<Rightarrow> exn + string" where
  "generate_answer_with_crag self query crag_result =
     (case answer_prompt query crag_result of
        Inl e \<Rightarrow> Inl e
      | Inr prompt \<Rightarrow> generate self prompt answer_system_prompt 500)"


section \<open>Example services\<close>

text \<open>
  Concrete collaborators on which the theorems below are exercised: a completion client
  whose reply decodes to a given value (or fails), a web search client given by its
  answer to each bound, the default settings, and constructors that accept everything.
\<close>

definition sample_hit :: web_result where
  "sample_hit = [''title'' \<mapsto> ''Paris'', ''content'' \<mapsto> ''Paris is the capital of France.'']"

definition stub_service :: "(exn + pyval) \<Rightarrow> (nat \<Rightarrow> exn + web_result list) \<Rightarrow> unit CRAGService" where
  "stub_service reply hits =
     \<lparr> settings = default_Settings ''sk-test'' ''tvly-test'',
       generate_with_json = (\<lambda>prompt system. Inr ''reply''),
       generate = (\<lambda>prompt system max_tokens. Inr prompt),
       search = (\<lambda>query max_results. hits max_results),
       json_loads = (\<lambda>response. reply),
       utcnow = 0,
       evaluation_valid = (\<lambda>ev. True),
       result_valid = (\<lambda>r. True) \<rparr>"

definition no_hits :: "nat \<Rightarrow> exn + web_result list" where
  "no_hits max_results = Inr []"

definition grader_reply :: "real \<Rightarrow> string \<Rightarrow> pyval" where
  "grader_reply sc lbl =
     PDict [''relevance_score'' \<mapsto> PFloat sc, ''relevance_label'' \<mapsto> PStr lbl, ''confidence'' \<mapsto> PFloat 0.9]"

definition graded :: "real \<Rightarrow> string \<Rightarrow> bool \<Rightarrow> CRAGEvaluation" where
  "graded sc lbl needs =
     \<lparr> relevance_score = PFloat sc, relevance_label = PStr lbl, confidence = PFloat 0.9,
       evaluation_method = ''llm_grader'', needs_web_search = needs, evaluated_at = 0 \<rparr>"

definition search_down :: "nat \<Rightarrow> exn + web_result list" where
  "search_down max_results = Inl (RemoteError ''search unavailable'')"

definition n_hits :: "nat \<Rightarrow> exn + web_result list" where
  "n_hits max_results = Inr (replicate max_results sample_hit)"

definition offline_service :: "(nat \<Rightarrow> exn + web_result list) \<Rightarrow> unit CRAGService" where
  "offline_service hits =
     (stub_service (Inl JSONDecodeError) hits)
       \<lparr> generate_with_json := (\<lambda>prompt system. Inl (RemoteError ''timeout'')) \<rparr>"

definition searched :: "CRAGEvaluation \<Rightarrow> nat \<Rightarrow> unit CRAGResult" where
  "searched ev n =
     \<lparr> used_web_search = True, evaluation = ev, retrieved_chunks = [],
       web_results = Some (replicate n sample_hit) \<rparr>"

definition skipped :: "CRAGEvaluation \<Rightarrow> unit CRAGResult" where
  "skipped ev =
     \<lparr> used_web_search = False, evaluation = ev, retrieved_chunks = [], web_results = None \<rparr>"

definition empty_reply :: pyval where
  "empty_reply = PDict Map.empty"

definition label_only_reply :: pyval where
  "label_only_reply = PDict [''relevance_label'' \<mapsto> PStr ''irrelevant'']"

definition sample_chunk :: "unit RetrievedChunk" where
  "sample_chunk = \<lparr> content = ''The Eiffel Tower is in Paris.'', metadata = (), score = 0.83 \<rparr>"

definition sample_result ::
  "string \<Rightarrow> bool \<Rightarrow> unit RetrievedChunk list \<Rightarrow> web_result list option \<Rightarrow> unit CRAGResult" where
  "sample_result lbl used chunks results =
     \<lparr> used_web_search = used,
       evaluation = graded 0.45 lbl used,
       retrieved_chunks = chunks,
       web_results = results \<rparr>"

definition three_only :: "string \<Rightarrow> nat \<Rightarrow> exn + web_result list" where
  "three_only query max_results =
     (if max_results = 3 then Inr [sample_hit, sample_hit, sample_hit]
      else Inl (RemoteError ''unexpected bound''))"

definition tuned_settings :: Settings where
  "tuned_settings =
     (default_Settings ''sk-other'' ''tvly-other'')
       \<lparr> crag_relevance_threshold := 0.9, top_k_results := 10 \<rparr>"


section \<open>The routing rule\<close>

lemma try_routing:
  assumes "evaluate_relevance_try self prompt = Inr ev"
  shows "routing_decision (relevance_label ev) (relevance_score ev)
           (crag_ambiguous_threshold (settings self)) = Inr (needs_web_search ev)"
  using assms
  by (auto simp: evaluate_relevance_try_def new_CRAGEvaluation_def split: sum.splits if_splits)

lemma routing_decision_iff:
  "routing_decision l s t = Inr b \<Longrightarrow>
     b \<longleftrightarrow> (l = PStr ''irrelevant'' \<or> (l = PStr ''ambiguous'' \<and> (\<exists>x. py_num s = Some x \<and> x < t)))"
  by (auto simp: routing_decision_def py_eq_str_def py_lt_float_def split: if_splits option.splits)

lemma stub_try:
  "evaluate_relevance_try (stub_service (Inr (grader_reply sc lbl)) hits) prompt =
     Inr (graded sc lbl (lbl = ''irrelevant'' \<or> (lbl = ''ambiguous'' \<and> sc < 0.5)))"
  by (simp add: evaluate_relevance_try_def stub_service_def grader_reply_def graded_def
      new_CRAGEvaluation_def routing_decision_def py_eq_str_def py_lt_float_def default_Settings_def)

lemma fallback_routing:
  "routing_decision (relevance_label (fallback_evaluation now))
     (relevance_score (fallback_evaluation now)) t = Inr (0.5 < t)"
  by (simp add: fallback_evaluation_def routing_decision_def py_eq_str_def py_lt_float_def)

lemma offline_try:
  "evaluate_relevance_try (offline_service hits) prompt = Inl (RemoteError ''timeout'')"
  by (simp add: evaluate_relevance_try_def offline_service_def stub_service_def)

lemma undecodable_try:
  "evaluate_relevance_try (stub_service (Inl JSONDecodeError) hits) prompt = Inl JSONDecodeError"
  by (simp add: evaluate_relevance_try_def stub_service_def)

lemma stub_valid: "evaluation_valid (stub_service reply hits) ev"
  by (simp add: stub_service_def)

lemma offline_valid: "evaluation_valid (offline_service hits) ev"
  by (simp add: offline_service_def stub_service_def)

lemma stub_now: "utcnow (stub_service reply hits) = 0"
  by (simp add: stub_service_def)

lemma offline_now: "utcnow (offline_service hits) = 0"
  by (simp add: offline_service_def stub_service_def)

lemma stub_threshold: "crag_ambiguous_threshold (settings (stub_service reply hits)) = 0.5"
  by (simp add: stub_service_def default_Settings_def)

lemma offline_threshold: "crag_ambiguous_threshold (settings (offline_service hits)) = 0.5"
  by (simp add: offline_service_def stub_service_def default_Settings_def)

lemma offline_evaluate:
  "evaluate_relevance (offline_service hits) query chunks = Inr (fallback_evaluation 0)"
  by (simp add: evaluate_relevance_def offline_try new_CRAGEvaluation_def offline_valid offline_now)

lemma undecodable_evaluate:
  "evaluate_relevance (stub_service (Inl JSONDecodeError) hits) query chunks = Inr (fallback_evaluation 0)"
  by (simp add: evaluate_relevance_def undecodable_try new_CRAGEvaluation_def stub_valid stub_now)

lemma stub_evaluate:
  "evaluate_relevance (stub_service (Inr (grader_reply sc lbl)) hits) query chunks =
     Inr (graded sc lbl (lbl = ''irrelevant'' \<or> (lbl = ''ambiguous'' \<and> sc < 0.5)))"
  by (simp add: evaluate_relevance_def stub_try)


section \<open>Facts about the pipeline\<close>

lemma stub_result_valid: "result_valid (stub_service reply hits) r"
  by (simp add: stub_service_def)

lemma offline_result_valid: "result_valid (offline_service hits) r"
  by (simp add: offline_service_def stub_service_def)

lemma stub_search: "search (stub_service reply hits) query n = hits n"
  by (simp add: stub_service_def)

lemma offline_search: "search (offline_service hits) query n = hits n"
  by (simp add: offline_service_def stub_service_def)

lemma offline_execute:
  "execute_crag (offline_service n_hits) query [] = Inr (searched (fallback_evaluation 0) 3)"
  by (simp add: execute_crag_def offline_evaluate fallback_evaluation_def offline_search
      n_hits_def new_CRAGResult_def offline_result_valid searched_def)

lemma offline_spec_execute:
  "spec_execute_crag n (offline_service n_hits) query [] = Inr (searched (fallback_evaluation 0) n)"
  by (simp add: spec_execute_crag_def offline_evaluate fallback_evaluation_def offline_search
      n_hits_def new_CRAGResult_def offline_result_valid searched_def)

lemma stub_execute_skip:
  "execute_crag (stub_service (Inr (grader_reply 0.92 ''relevant'')) n_hits) query []
     = Inr (skipped (graded 0.92 ''relevant'' False))"
  by (simp add: execute_crag_def stub_evaluate graded_def new_CRAGResult_def stub_result_valid
      skipped_def)

lemma execute_crag_cases:
  assumes "execute_crag self query chunks = Inr r"
  shows "(\<exists>results. needs_web_search (evaluation r) \<and> used_web_search r
            \<and> search self query 3 = Inr results \<and> web_results r = Some results)
         \<or> (\<not> needs_web_search (evaluation r) \<and> \<not> used_web_search r \<and> web_results r = None)"
  using assms
  by (auto simp: execute_crag_def new_CRAGResult_def split: sum.splits if_splits)

lemma evaluate_relevance_search_update:
  "evaluate_relevance (self\<lparr>search := client\<rparr>) query chunks = evaluate_relevance self query chunks"
  by (simp add: evaluate_relevance_def evaluate_relevance_try_def new_CRAGEvaluation_def
      split: sum.splits)

lemma evaluate_relevance_settings_update:
  "crag_ambiguous_threshold s = crag_ambiguous_threshold (settings self) \<Longrightarrow>
     evaluate_relevance (self\<lparr>settings := s\<rparr>) query chunks = evaluate_relevance self query chunks"
  by (simp add: evaluate_relevance_def evaluate_relevance_try_def new_CRAGEvaluation_def
      split: sum.splits)

lemma execute_crag_search_update:
  "client query 3 = search self query 3 \<Longrightarrow>
     execute_crag (self\<lparr>search := client\<rparr>) query chunks = execute_crag self query chunks"
  by (simp add: execute_crag_def evaluate_relevance_search_update new_CRAGResult_def
      split: sum.splits)

lemma execute_crag_settings_update:
  "crag_ambiguous_threshold s = crag_ambiguous_threshold (settings self) \<Longrightarrow>
     execute_crag (self\<lparr>settings := s\<rparr>) query chunks = execute_crag self query chunks"
  by (simp add: execute_crag_def evaluate_relevance_settings_update new_CRAGResult_def
      split: sum.splits)


section \<open>Context assembly\<close>

lemma str_nat_1: "str_nat 1 = ''1''"
  by code_simp

lemma str_nat_Suc_0: "str_nat (Suc 0) = ''1''"
  using str_nat_1 by simp

lemma length_document_parts: "length (document_parts i chunks) = length chunks"
  by (induction chunks arbitrary: i) simp_all

lemma document_parts_nth:
  "k < length chunks \<Longrightarrow>
     document_parts i chunks ! k = nl @ ''Document '' @ str_nat (i + k) @ '':'' @ nl @ content (chunks ! k)"
proof (induction chunks arbitrary: i k)
  case Nil
  then show ?case by simp
next
  case (Cons c cs)
  show ?case
  proof (cases k)
    case 0
    then show ?thesis by simp
  next
    case (Suc j)
    with Cons.prems have "j < length cs" by simp
    from Cons.IH [OF this, of "Suc i"] Suc show ?thesis by simp
  qed
qed

lemma sample_label: "relevance_label (evaluation (sample_result lbl used chunks results)) = PStr lbl"
  by (simp add: sample_result_def graded_def)


lemma other_context_parts:
  assumes "relevance_label (evaluation r) \<noteq> PStr ''irrelevant''"
  shows "context_parts r =
           (if used_web_search r then
              (case web_results r of
                 None \<Rightarrow> Inr (''=== Retrieved Documents ==='' # document_parts 1 (retrieved_chunks r))
               | Some [] \<Rightarrow> Inr (''=== Retrieved Documents ==='' # document_parts 1 (retrieved_chunks r))
               | Some (w # ws) \<Rightarrow>
                   (case web_source_parts 1 (w # ws) of
                      Inl e \<Rightarrow> Inl e
                    | Inr parts \<Rightarrow>
                        Inr ((''=== Retrieved Documents ==='' # document_parts 1 (retrieved_chunks r))
                             @ (nl @ nl @ ''=== Additional Web Information ==='') # parts)))
            else Inr (''=== Retrieved Documents ==='' # document_parts 1 (retrieved_chunks r)))"
  using assms
  by (simp add: context_parts_def py_eq_str_def split: option.splits list.splits)

lemma join_append:
  "xs \<noteq> [] \<Longrightarrow> ys \<noteq> [] \<Longrightarrow> join sep (xs @ ys) = join sep xs @ sep @ join sep ys"
proof (induction sep xs rule: join.induct)
  case (1 sep)
  then show ?case by simp
next
  case (2 sep p)
  then show ?case by (cases ys) simp_all
next
  case (3 sep p q ps)
  then show ?case by simp
qed

lemma join_two_sections:
  "join sep (h # ds @ w # ps) = join sep (h # ds) @ sep @ join sep (w # ps)"
  using join_append [of "h # ds" "w # ps" sep] by simp


text \<open>
  C1. When the \<^verbatim>\<open>try\<close> block of \<^verbatim>\<open>evaluate_relevance\<close> returns an evaluation, that
  evaluation is the result, and its \<^verbatim>\<open>needs_web_search\<close> is true exactly when the label is
  "irrelevant", or the label is "ambiguous" and the score is below the configured
  ambiguity threshold. So a "relevant" label never asks for a web search and an
  "irrelevant" label always does, whatever the score; with the default threshold 0.5 an
  "ambiguous" label asks for it at score 0.45 and not at score 0.6.
\<close>

theorem evaluate_relevance_routing:
  assumes "evaluate_relevance_try self (relevance_prompt query chunks) = Inr ev"
  shows "evaluate_relevance self query chunks = Inr ev
    \<and> (needs_web_search ev \<longleftrightarrow>
         relevance_label ev = PStr ''irrelevant''
         \<or> (relevance_label ev = PStr ''ambiguous''
            \<and> (\<exists>x. py_num (relevance_score ev) = Some x
                   \<and> x < crag_ambiguous_threshold (settings self))))
    \<and> (relevance_label ev = PStr ''relevant'' \<longrightarrow> \<not> needs_web_search ev)
    \<and> (relevance_label ev = PStr ''irrelevant'' \<longrightarrow> needs_web_search ev)
    \<and> (relevance_label ev = PStr ''ambiguous'' \<and> crag_ambiguous_threshold (settings self) = 0.5
         \<and> relevance_score ev = PFloat 0.45 \<longrightarrow> needs_web_search ev)
    \<and> (relevance_label ev = PStr ''ambiguous'' \<and> crag_ambiguous_threshold (settings self) = 0.5
         \<and> relevance_score ev = PFloat 0.6 \<longrightarrow> \<not> needs_web_search ev)"
proof -
  have ret: "evaluate_relevance self query chunks = Inr ev"
    using assms by (simp add: evaluate_relevance_def)
  have rule: "needs_web_search ev \<longleftrightarrow>
         relevance_label ev = PStr ''irrelevant''
         \<or> (relevance_label ev = PStr ''ambiguous''
            \<and> (\<exists>x. py_num (relevance_score ev) = Some x
                   \<and> x < crag_ambiguous_threshold (settings self)))"
    by (rule routing_decision_iff [OF try_routing [OF assms]])
  from rule have rel: "relevance_label ev = PStr ''relevant'' \<longrightarrow> \<not> needs_web_search ev"
    by auto
  from rule have irr: "relevance_label ev = PStr ''irrelevant'' \<longrightarrow> needs_web_search ev"
    by auto
  have num: "\<And>x. routing_decision (PStr ''ambiguous'') (PFloat x) (0.5::real) = Inr (x < 0.5)"
    by (simp add: routing_decision_def py_eq_str_def py_lt_float_def)
  have lo: "relevance_label ev = PStr ''ambiguous'' \<and> crag_ambiguous_threshold (settings self) = 0.5
         \<and> relevance_score ev = PFloat 0.45 \<longrightarrow> needs_web_search ev"
  proof (intro impI, elim conjE)
    assume l: "relevance_label ev = PStr ''ambiguous''"
      and t: "crag_ambiguous_threshold (settings self) = 0.5"
      and s: "relevance_score ev = PFloat 0.45"
    have "routing_decision (PStr ''ambiguous'') (PFloat 0.45) 0.5 = Inr (needs_web_search ev)"
      using try_routing [OF assms] by (simp only: l t s)
    with num [of "0.45"] show "needs_web_search ev" by simp
  qed
  have hi: "relevance_label ev = PStr ''ambiguous'' \<and> crag_ambiguous_threshold (settings self) = 0.5
         \<and> relevance_score ev = PFloat 0.6 \<longrightarrow> \<not> needs_web_search ev"
  proof (intro impI, elim conjE)
    assume l: "relevance_label ev = PStr ''ambiguous''"
      and t: "crag_ambiguous_threshold (settings self) = 0.5"
      and s: "relevance_score ev = PFloat 0.6"
    have "routing_decision (PStr ''ambiguous'') (PFloat 0.6) 0.5 = Inr (needs_web_search ev)"
      using try_routing [OF assms] by (simp only: l t s)
    with num [of "0.6"] show "\<not> needs_web_search ev" by simp
  qed
  from ret rule rel irr lo hi show ?thesis by blast
qed

theorem evaluate_relevance_routing_witness:
  "evaluate_relevance (stub_service (Inr (grader_reply 0.1 ''relevant'')) no_hits) ''q'' []
     = Inr (graded 0.1 ''relevant'' False)
   \<and> evaluate_relevance (stub_service (Inr (grader_reply 0.99 ''irrelevant'')) no_hits) ''q'' []
     = Inr (graded 0.99 ''irrelevant'' True)
   \<and> evaluate_relevance (stub_service (Inr (grader_reply 0.45 ''ambiguous'')) no_hits) ''q'' []
     = Inr (graded 0.45 ''ambiguous'' True)
   \<and> evaluate_relevance (stub_service (Inr (grader_reply 0.6 ''ambiguous'')) no_hits) ''q'' []
     = Inr (graded 0.6 ''ambiguous'' False)
   \<and> crag_ambiguous_threshold (settings (stub_service (Inr (grader_reply 0.45 ''ambiguous'')) no_hits)) = 0.5"
proof -
  have a: "evaluate_relevance_try (stub_service (Inr (grader_reply 0.1 ''relevant'')) no_hits)
             (relevance_prompt ''q'' ([] :: unit RetrievedChunk list)) = Inr (graded 0.1 ''relevant'' False)"
    by (simp add: stub_try)
  have b: "evaluate_relevance_try (stub_service (Inr (grader_reply 0.99 ''irrelevant'')) no_hits)
             (relevance_prompt ''q'' ([] :: unit RetrievedChunk list)) = Inr (graded 0.99 ''irrelevant'' True)"
    by (simp add: stub_try)
  have c: "evaluate_relevance_try (stub_service (Inr (grader_reply 0.45 ''ambiguous'')) no_hits)
             (relevance_prompt ''q'' ([] :: unit RetrievedChunk list)) = Inr (graded 0.45 ''ambiguous'' True)"
    by (simp add: stub_try)
  have d: "evaluate_relevance_try (stub_service (Inr (grader_reply 0.6 ''ambiguous'')) no_hits)
             (relevance_prompt ''q'' ([] :: unit RetrievedChunk list)) = Inr (graded 0.6 ''ambiguous'' False)"
    by (simp add: stub_try)
  show ?thesis
    using evaluate_relevance_routing [OF a] evaluate_relevance_routing [OF b]
      evaluate_relevance_routing [OF c] evaluate_relevance_routing [OF d]
    by (simp add: stub_service_def default_Settings_def)
qed

text \<open>
  C2, as stated, fails on the failure path: the \<^verbatim>\<open>except\<close> handler sets
  \<^verbatim>\<open>needs_web_search\<close> to True beside the label "ambiguous" and the score 0.5, while the
  routing rule at the default threshold 0.5 gives False for that label and score
  (0.5 is not below 0.5).
\<close>

theorem fallback_not_routed_counterexample:
  "evaluate_relevance (offline_service no_hits) ''q'' [] = Inr (fallback_evaluation 0)
   \<and> needs_web_search (fallback_evaluation 0) = True
   \<and> crag_ambiguous_threshold (settings (offline_service no_hits)) = 0.5
   \<and> routing_decision (relevance_label (fallback_evaluation 0))
        (relevance_score (fallback_evaluation 0)) 0.5 = Inr False"
  by (simp add: offline_evaluate offline_threshold fallback_routing) (simp add: fallback_evaluation_def)

text \<open>
  C2, amended. An evaluation returned by the \<^verbatim>\<open>try\<close> block has \<^verbatim>\<open>needs_web_search\<close> equal
  to the routing rule of its label, its score and the configured ambiguity threshold. The
  only other path is the failure fallback, which sets \<^verbatim>\<open>needs_web_search\<close> to True
  directly; that agrees with the routing rule of the fallback's label and score exactly
  when the threshold is above 0.5.
\<close>

theorem needs_web_search_routed_or_fallback:
  assumes "evaluate_relevance self query chunks = Inr ev"
  shows "case evaluate_relevance_try self (relevance_prompt query chunks) of
           Inr ev' \<Rightarrow>
             ev = ev'
             \<and> routing_decision (relevance_label ev) (relevance_score ev)
                  (crag_ambiguous_threshold (settings self)) = Inr (needs_web_search ev)
         | Inl e \<Rightarrow>
             ev = fallback_evaluation (utcnow self)
             \<and> needs_web_search ev
             \<and> (routing_decision (relevance_label ev) (relevance_score ev)
                   (crag_ambiguous_threshold (settings self)) = Inr (needs_web_search ev)
                 \<longleftrightarrow> 0.5 < crag_ambiguous_threshold (settings self))"
proof (cases "evaluate_relevance_try self (relevance_prompt query chunks)")
  case (Inr ev')
  with assms have "ev = ev'" by (simp add: evaluate_relevance_def)
  with Inr try_routing [OF Inr] show ?thesis by simp
next
  case (Inl e)
  with assms have ev: "ev = fallback_evaluation (utcnow self)"
    by (simp add: evaluate_relevance_def new_CRAGEvaluation_def split: if_splits)
  have "needs_web_search ev" by (simp add: ev fallback_evaluation_def)
  with Inl ev fallback_routing [of "utcnow self" "crag_ambiguous_threshold (settings self)"]
  show ?thesis by simp
qed

theorem needs_web_search_routed_or_fallback_witness:
  "evaluate_relevance (stub_service (Inr (grader_reply 0.45 ''ambiguous'')) no_hits) ''q'' []
     = Inr (graded 0.45 ''ambiguous'' True)
   \<and> routing_decision (PStr ''ambiguous'') (PFloat 0.45) 0.5 = Inr True
   \<and> evaluate_relevance (offline_service no_hits) ''q'' [] = Inr (fallback_evaluation 0)
   \<and> needs_web_search (fallback_evaluation 0)"
proof -
  have a: "evaluate_relevance (stub_service (Inr (grader_reply 0.45 ''ambiguous'')) no_hits) ''q'' []
     = Inr (graded 0.45 ''ambiguous'' True)"
    by (simp add: stub_evaluate)
  have b: "evaluate_relevance (offline_service no_hits) ''q'' [] = Inr (fallback_evaluation 0)"
    by (rule offline_evaluate)
  show ?thesis
    using needs_web_search_routed_or_fallback [OF a] needs_web_search_routed_or_fallback [OF b] a b
    by (simp add: stub_try offline_try stub_threshold offline_now graded_def)
qed

text \<open>
  C3. \<^verbatim>\<open>evaluate_relevance\<close> returns an evaluation on every query and chunk list, and
  whenever its \<^verbatim>\<open>try\<close> block raises it returns exactly the fallback: score 0.5, label
  "ambiguous", confidence 0.5, \<^verbatim>\<open>needs_web_search\<close> True. A failure of the structured
  completion call and a failure of the parse of its output are two such cases. The one
  hypothesis is on the class that is not among the sources: its constructor accepts the
  fallback's own field values.
\<close>

theorem evaluate_relevance_never_raises:
  assumes "evaluation_valid self (fallback_evaluation (utcnow self))"
  shows "(\<exists>ev. evaluate_relevance self query chunks = Inr ev)
    \<and> (\<forall>e. evaluate_relevance_try self (relevance_prompt query chunks) = Inl e \<longrightarrow>
          evaluate_relevance self query chunks =
            Inr \<lparr> relevance_score = PFloat 0.5,
                  relevance_label = PStr ''ambiguous'',
                  confidence = PFloat 0.5,
                  evaluation_method = ''llm_grader'',
                  needs_web_search = True,
                  evaluated_at = utcnow self \<rparr>)
    \<and> (\<forall>e. generate_with_json self (relevance_prompt query chunks) relevance_system_prompt = Inl e \<longrightarrow>
          evaluate_relevance_try self (relevance_prompt query chunks) = Inl e)
    \<and> (\<forall>response e.
          generate_with_json self (relevance_prompt query chunks) relevance_system_prompt = Inr response
          \<and> json_loads self response = Inl e \<longrightarrow>
          evaluate_relevance_try self (relevance_prompt query chunks) = Inl e)"
proof -
  have fb: "new_CRAGEvaluation self (fallback_evaluation (utcnow self))
              = Inr (fallback_evaluation (utcnow self))"
    using assms by (simp add: new_CRAGEvaluation_def)
  have returns: "\<exists>ev. evaluate_relevance self query chunks = Inr ev"
    by (cases "evaluate_relevance_try self (relevance_prompt query chunks)")
       (simp_all add: evaluate_relevance_def fb)
  have handled: "\<forall>e. evaluate_relevance_try self (relevance_prompt query chunks) = Inl e \<longrightarrow>
          evaluate_relevance self query chunks =
            Inr \<lparr> relevance_score = PFloat 0.5,
                  relevance_label = PStr ''ambiguous'',
                  confidence = PFloat 0.5,
                  evaluation_method = ''llm_grader'',
                  needs_web_search = True,
                  evaluated_at = utcnow self \<rparr>"
    using fb by (simp add: evaluate_relevance_def fallback_evaluation_def)
  have call: "\<forall>e. generate_with_json self (relevance_prompt query chunks) relevance_system_prompt = Inl e \<longrightarrow>
          evaluate_relevance_try self (relevance_prompt query chunks) = Inl e"
    by (simp add: evaluate_relevance_try_def)
  have parse: "\<forall>response e.
          generate_with_json self (relevance_prompt query chunks) relevance_system_prompt = Inr response
          \<and> json_loads self response = Inl e \<longrightarrow>
          evaluate_relevance_try self (relevance_prompt query chunks) = Inl e"
    by (simp add: evaluate_relevance_try_def)
  from returns handled call parse show ?thesis by blast
qed

theorem evaluate_relevance_never_raises_witness:
  "evaluation_valid (offline_service no_hits) (fallback_evaluation (utcnow (offline_service no_hits)))
   \<and> generate_with_json (offline_service no_hits) (relevance_prompt ''q'' ([] :: unit RetrievedChunk list)) relevance_system_prompt
       = Inl (RemoteError ''timeout'')
   \<and> evaluate_relevance (offline_service no_hits) ''q'' []
       = Inr \<lparr> relevance_score = PFloat 0.5,
               relevance_label = PStr ''ambiguous'',
               confidence = PFloat 0.5,
               evaluation_method = ''llm_grader'',
               needs_web_search = True,
               evaluated_at = 0 \<rparr>
   \<and> generate_with_json (stub_service (Inl JSONDecodeError) no_hits) (relevance_prompt ''q'' ([] :: unit RetrievedChunk list))
       relevance_system_prompt = Inr ''reply''
   \<and> json_loads (stub_service (Inl JSONDecodeError) no_hits) ''reply'' = Inl JSONDecodeError
   \<and> evaluate_relevance (stub_service (Inl JSONDecodeError) no_hits) ''q'' []
       = Inr \<lparr> relevance_score = PFloat 0.5,
               relevance_label = PStr ''ambiguous'',
               confidence = PFloat 0.5,
               evaluation_method = ''llm_grader'',
               needs_web_search = True,
               evaluated_at = 0 \<rparr>"
proof -
  have a: "evaluation_valid (offline_service no_hits) (fallback_evaluation (utcnow (offline_service no_hits)))"
    by (rule offline_valid)
  have b: "evaluation_valid (stub_service (Inl JSONDecodeError) no_hits)
             (fallback_evaluation (utcnow (stub_service (Inl JSONDecodeError) no_hits)))"
    by (rule stub_valid)
  have g: "generate_with_json (offline_service no_hits) (relevance_prompt ''q'' ([] :: unit RetrievedChunk list)) relevance_system_prompt
       = Inl (RemoteError ''timeout'')"
    by (simp add: offline_service_def stub_service_def)
  have g': "generate_with_json (stub_service (Inl JSONDecodeError) no_hits) (relevance_prompt ''q'' ([] :: unit RetrievedChunk list))
       relevance_system_prompt = Inr ''reply''"
    by (simp add: stub_service_def)
  have j: "json_loads (stub_service (Inl JSONDecodeError) no_hits) ''reply'' = Inl JSONDecodeError"
    by (simp add: stub_service_def)
  note A = evaluate_relevance_never_raises [OF a, of "''q''" "[]"]
  note B = evaluate_relevance_never_raises [OF b, of "''q''" "[]"]
  have ta: "evaluate_relevance_try (offline_service no_hits) (relevance_prompt ''q'' ([] :: unit RetrievedChunk list))
              = Inl (RemoteError ''timeout'')"
    by (rule A [THEN conjunct2, THEN conjunct2, THEN conjunct1, rule_format, OF g])
  have tb: "evaluate_relevance_try (stub_service (Inl JSONDecodeError) no_hits) (relevance_prompt ''q'' ([] :: unit RetrievedChunk list))
              = Inl JSONDecodeError"
    by (rule B [THEN conjunct2, THEN conjunct2, THEN conjunct2, rule_format, OF conjI [OF g' j]])
  have ra: "evaluate_relevance (offline_service no_hits) ''q'' []
       = Inr \<lparr> relevance_score = PFloat 0.5,
               relevance_label = PStr ''ambiguous'',
               confidence = PFloat 0.5,
               evaluation_method = ''llm_grader'',
               needs_web_search = True,
               evaluated_at = utcnow (offline_service no_hits) \<rparr>"
    by (rule A [THEN conjunct2, THEN conjunct1, rule_format, OF ta])
  have rb: "evaluate_relevance (stub_service (Inl JSONDecodeError) no_hits) ''q'' []
       = Inr \<lparr> relevance_score = PFloat 0.5,
               relevance_label = PStr ''ambiguous'',
               confidence = PFloat 0.5,
               evaluation_method = ''llm_grader'',
               needs_web_search = True,
               evaluated_at = utcnow (stub_service (Inl JSONDecodeError) no_hits) \<rparr>"
    by (rule B [THEN conjunct2, THEN conjunct1, rule_format, OF tb])
  show ?thesis
    using a g g' j ra rb by (simp add: offline_now stub_now)
qed

text \<open>
  C4. Every result that \<^verbatim>\<open>execute_crag\<close> returns has \<^verbatim>\<open>used_web_search\<close> equal to the
  \<^verbatim>\<open>needs_web_search\<close> of its evaluation, and has web results (the field is not None)
  exactly when \<^verbatim>\<open>used_web_search\<close> is true.
\<close>

theorem execute_crag_result_invariant:
  assumes "execute_crag self query chunks = Inr r"
  shows "used_web_search r = needs_web_search (evaluation r)
    \<and> (web_results r \<noteq> None \<longleftrightarrow> used_web_search r)"
  using execute_crag_cases [OF assms] by auto

theorem execute_crag_result_invariant_witness:
  "execute_crag (offline_service n_hits) ''q'' [] = Inr (searched (fallback_evaluation 0) 3)
   \<and> used_web_search (searched (fallback_evaluation 0) 3) = True
   \<and> needs_web_search (evaluation (searched (fallback_evaluation 0) 3)) = True
   \<and> web_results (searched (fallback_evaluation 0) 3) = Some (replicate 3 sample_hit)
   \<and> execute_crag (stub_service (Inr (grader_reply 0.92 ''relevant'')) n_hits) ''q'' []
       = Inr (skipped (graded 0.92 ''relevant'' False))
   \<and> used_web_search (skipped (graded 0.92 ''relevant'' False)) = False
   \<and> needs_web_search (evaluation (skipped (graded 0.92 ''relevant'' False))) = False
   \<and> web_results (skipped (graded 0.92 ''relevant'' False)) = None"
proof -
  have a: "execute_crag (offline_service n_hits) ''q'' [] = Inr (searched (fallback_evaluation 0) 3)"
    by (rule offline_execute)
  have b: "execute_crag (stub_service (Inr (grader_reply 0.92 ''relevant'')) n_hits) ''q'' []
       = Inr (skipped (graded 0.92 ''relevant'' False))"
    by (rule stub_execute_skip)
  show ?thesis
    using execute_crag_result_invariant [OF a] execute_crag_result_invariant [OF b] a b
    by (simp add: searched_def skipped_def graded_def)
qed

text \<open>
  C7. When the grader's reply decodes to a JSON object and the \<^verbatim>\<open>try\<close> block returns,
  each of the three graded fields of the evaluation is the object's value under that key
  when the key is present, and otherwise its own default: 0.5 for the score, "ambiguous"
  for the label, 0.7 for the confidence.
\<close>

theorem missing_fields_default:
  assumes "generate_with_json self (relevance_prompt query chunks) relevance_system_prompt = Inr response"
    and "json_loads self response = Inr (PDict d)"
    and "evaluate_relevance_try self (relevance_prompt query chunks) = Inr ev"
  shows "relevance_score ev = (case d ''relevance_score'' of None \<Rightarrow> PFloat 0.5 | Some v \<Rightarrow> v)
    \<and> relevance_label ev = (case d ''relevance_label'' of None \<Rightarrow> PStr ''ambiguous'' | Some v \<Rightarrow> v)
    \<and> confidence ev = (case d ''confidence'' of None \<Rightarrow> PFloat 0.7 | Some v \<Rightarrow> v)
    \<and> evaluate_relevance self query chunks = Inr ev"
  using assms
  by (auto simp: evaluate_relevance_def evaluate_relevance_try_def new_CRAGEvaluation_def
      split: sum.splits if_splits option.splits)

theorem missing_fields_default_witness:
  "evaluate_relevance (stub_service (Inr empty_reply) no_hits) ''q'' []
     = Inr \<lparr> relevance_score = PFloat 0.5,
             relevance_label = PStr ''ambiguous'',
             confidence = PFloat 0.7,
             evaluation_method = ''llm_grader'',
             needs_web_search = False,
             evaluated_at = 0 \<rparr>
   \<and> evaluate_relevance (stub_service (Inr label_only_reply) no_hits) ''q'' []
     = Inr \<lparr> relevance_score = PFloat 0.5,
             relevance_label = PStr ''irrelevant'',
             confidence = PFloat 0.7,
             evaluation_method = ''llm_grader'',
             needs_web_search = True,
             evaluated_at = 0 \<rparr>"
proof -
  let ?p = "relevance_prompt ''q'' ([] :: unit RetrievedChunk list)"
  let ?a = "stub_service (Inr empty_reply) no_hits"
  let ?b = "stub_service (Inr label_only_reply) no_hits"
  let ?eva = "\<lparr> relevance_score = PFloat 0.5, relevance_label = PStr ''ambiguous'',
             confidence = PFloat 0.7, evaluation_method = ''llm_grader'',
             needs_web_search = False, evaluated_at = 0 \<rparr>"
  let ?evb = "\<lparr> relevance_score = PFloat 0.5, relevance_label = PStr ''irrelevant'',
             confidence = PFloat 0.7, evaluation_method = ''llm_grader'',
             needs_web_search = True, evaluated_at = 0 \<rparr>"
  have ga: "generate_with_json ?a ?p relevance_system_prompt = Inr ''reply''"
    by (simp add: stub_service_def)
  have gb: "generate_with_json ?b ?p relevance_system_prompt = Inr ''reply''"
    by (simp add: stub_service_def)
  have ja: "json_loads ?a ''reply'' = Inr (PDict Map.empty)"
    by (simp add: stub_service_def empty_reply_def)
  have jb: "json_loads ?b ''reply'' = Inr (PDict [''relevance_label'' \<mapsto> PStr ''irrelevant''])"
    by (simp add: stub_service_def label_only_reply_def)
  have ta: "evaluate_relevance_try ?a ?p = Inr ?eva"
    by (simp add: evaluate_relevance_try_def stub_service_def empty_reply_def
        new_CRAGEvaluation_def routing_decision_def py_eq_str_def py_lt_float_def default_Settings_def)
  have tb: "evaluate_relevance_try ?b ?p = Inr ?evb"
    by (simp add: evaluate_relevance_try_def stub_service_def label_only_reply_def
        new_CRAGEvaluation_def routing_decision_def py_eq_str_def py_lt_float_def default_Settings_def)
  show ?thesis
    using missing_fields_default [OF ga ja ta] missing_fields_default [OF gb jb tb]
    by simp
qed

text \<open>
  C8, as stated, fails: the bound is not a configured value. With a configured
  \<open>max_web_results\<close> of 5 the pipeline of the specification asks the search client for 5
  results; \<^verbatim>\<open>execute_crag\<close> asks for 3, and the two results differ.
\<close>

theorem configured_bound_counterexample:
  "execute_crag (offline_service n_hits) ''q'' [] = Inr (searched (fallback_evaluation 0) 3)
   \<and> spec_execute_crag 5 (offline_service n_hits) ''q'' [] = Inr (searched (fallback_evaluation 0) 5)
   \<and> searched (fallback_evaluation 0) 3 \<noteq> searched (fallback_evaluation 0) 5"
  by (simp add: offline_execute offline_spec_execute) (simp add: searched_def)

text \<open>
  C8, amended. Whenever \<^verbatim>\<open>execute_crag\<close> transitions to web search, that is, the evaluation
  it obtained asks for a web search and the log line before the branch (line 97, which
  formats the score with two decimals) did not raise, it calls the web search client with
  the query and the constant bound 3, and its outcome is what that call gives: the
  client's exception, or the result built from the client's answer. The bound is a literal
  of the code and follows no configuration: the outcome depends on the client only through
  its answer at the bound 3, and on the settings only through the ambiguity threshold.
\<close>

theorem execute_crag_bound_is_three:
  assumes "evaluate_relevance self query chunks = Inr ev"
    and "format_2f (relevance_score ev) = Inr ()"
    and "needs_web_search ev"
  shows "execute_crag self query chunks =
           (case search self query 3 of
              Inl e \<Rightarrow> Inl e
            | Inr results \<Rightarrow>
                new_CRAGResult self
                  \<lparr> used_web_search = True,
                    evaluation = ev,
                    retrieved_chunks = chunks,
                    web_results = Some results \<rparr>)
    \<and> (\<forall>client. client query 3 = search self query 3 \<longrightarrow>
          execute_crag (self\<lparr>search := client\<rparr>) query chunks = execute_crag self query chunks)
    \<and> (\<forall>s. crag_ambiguous_threshold s = crag_ambiguous_threshold (settings self) \<longrightarrow>
          execute_crag (self\<lparr>settings := s\<rparr>) query chunks = execute_crag self query chunks)"
proof -
  have call: "execute_crag self query chunks =
           (case search self query 3 of
              Inl e \<Rightarrow> Inl e
            | Inr results \<Rightarrow>
                new_CRAGResult self
                  \<lparr> used_web_search = True,
                    evaluation = ev,
                    retrieved_chunks = chunks,
                    web_results = Some results \<rparr>)"
    using assms by (simp add: execute_crag_def)
  from call execute_crag_search_update [of _ query self chunks]
    execute_crag_settings_update [of _ self query chunks]
  show ?thesis by blast
qed

theorem execute_crag_bound_is_three_witness:
  "evaluate_relevance (offline_service n_hits) ''q'' [] = Inr (fallback_evaluation 0)
   \<and> format_2f (relevance_score (fallback_evaluation 0)) = Inr ()
   \<and> needs_web_search (fallback_evaluation 0)
   \<and> search (offline_service n_hits) ''q'' 3 = Inr [sample_hit, sample_hit, sample_hit]
   \<and> execute_crag (offline_service n_hits) ''q'' []
       = Inr \<lparr> used_web_search = True,
               evaluation = fallback_evaluation 0,
               retrieved_chunks = [],
               web_results = Some [sample_hit, sample_hit, sample_hit] \<rparr>
   \<and> three_only ''q'' 3 = search (offline_service n_hits) ''q'' 3
   \<and> execute_crag ((offline_service n_hits)\<lparr>search := three_only\<rparr>) ''q'' []
       = execute_crag (offline_service n_hits) ''q'' []
   \<and> crag_ambiguous_threshold tuned_settings
       = crag_ambiguous_threshold (settings (offline_service n_hits))
   \<and> execute_crag ((offline_service n_hits)\<lparr>settings := tuned_settings\<rparr>) ''q'' []
       = execute_crag (offline_service n_hits) ''q'' []"
proof -
  have a: "evaluate_relevance (offline_service n_hits) ''q'' [] = Inr (fallback_evaluation 0)"
    by (rule offline_evaluate)
  have b: "format_2f (relevance_score (fallback_evaluation 0)) = Inr ()"
    by (simp add: fallback_evaluation_def)
  have c: "needs_web_search (fallback_evaluation 0)"
    by (simp add: fallback_evaluation_def)
  have d: "search (offline_service n_hits) ''q'' 3 = Inr [sample_hit, sample_hit, sample_hit]"
    by (simp add: offline_search n_hits_def numeral_3_eq_3)
  note t = execute_crag_bound_is_three [OF a b c]
  have e: "execute_crag (offline_service n_hits) ''q'' []
       = Inr \<lparr> used_web_search = True,
               evaluation = fallback_evaluation 0,
               retrieved_chunks = [],
               web_results = Some [sample_hit, sample_hit, sample_hit] \<rparr>"
    using t [THEN conjunct1] by (simp add: d new_CRAGResult_def offline_result_valid)
  have f: "three_only ''q'' 3 = search (offline_service n_hits) ''q'' 3"
    by (simp add: d three_only_def)
  have g: "execute_crag ((offline_service n_hits)\<lparr>search := three_only\<rparr>) ''q'' []
       = execute_crag (offline_service n_hits) ''q'' []"
    using t [THEN conjunct2, THEN conjunct1, THEN spec [where x = three_only]] f by simp
  have h: "crag_ambiguous_threshold tuned_settings
       = crag_ambiguous_threshold (settings (offline_service n_hits))"
    by (simp add: tuned_settings_def default_Settings_def offline_threshold)
  have i: "execute_crag ((offline_service n_hits)\<lparr>settings := tuned_settings\<rparr>) ''q'' []
       = execute_crag (offline_service n_hits) ''q'' []"
    using t [THEN conjunct2, THEN conjunct2, THEN spec [where x = tuned_settings]] h by simp
  from a b c d e f g h i show ?thesis by blast
qed

text \<open>
  C9. If the evaluation has completed and asks for a web search, the web search client is
  reached (the log line before the branch did not raise) and the client raises, then
  \<^verbatim>\<open>execute_crag\<close> returns no result: it raises that same exception.
\<close>

theorem search_failure_propagates:
  assumes "evaluate_relevance self query chunks = Inr ev"
    and "format_2f (relevance_score ev) = Inr ()"
    and "needs_web_search ev"
    and "search self query 3 = Inl e"
  shows "execute_crag self query chunks = Inl e"
  using assms by (simp add: execute_crag_def)

theorem search_failure_propagates_witness:
  "evaluate_relevance (offline_service search_down) ''q'' [] = Inr (fallback_evaluation 0)
   \<and> format_2f (relevance_score (fallback_evaluation 0)) = Inr ()
   \<and> needs_web_search (fallback_evaluation 0)
   \<and> search (offline_service search_down) ''q'' 3 = Inl (RemoteError ''search unavailable'')
   \<and> execute_crag (offline_service search_down) ''q'' [] = Inl (RemoteError ''search unavailable'')"
proof -
  have a: "evaluate_relevance (offline_service search_down) ''q'' [] = Inr (fallback_evaluation 0)"
    by (rule offline_evaluate)
  have b: "format_2f (relevance_score (fallback_evaluation 0)) = Inr ()"
    by (simp add: fallback_evaluation_def)
  have c: "needs_web_search (fallback_evaluation 0)"
    by (simp add: fallback_evaluation_def)
  have d: "search (offline_service search_down) ''q'' 3 = Inl (RemoteError ''search unavailable'')"
    by (simp add: offline_search search_down_def)
  show ?thesis
    using search_failure_propagates [OF a b c d] a b c d by simp
qed



text \<open>
  C6. When the label of the evaluation is "relevant" or "ambiguous", the context that
  \<^verbatim>\<open>generate_answer_with_crag\<close> assembles starts with the retrieved documents section,
  which holds every retrieved chunk in order, numbered from 1. The web section follows
  that section, after a line feed, when \<^verbatim>\<open>used_web_search\<close> is true, and nothing follows it
  when \<^verbatim>\<open>used_web_search\<close> is false; when there are no web results to append (absent or
  empty), nothing follows it either. This context is placed in the prompt after the query,
  and the prompt is what the completion client is called with, bounded to 500 tokens.
\<close>

theorem chunks_first_then_web:
  assumes "relevance_label (evaluation r) = PStr ''relevant''
           \<or> relevance_label (evaluation r) = PStr ''ambiguous''"
  shows \<open>answer_context r =
           (if used_web_search r then
              (case web_results r of
                 None \<Rightarrow>
                   Inr (join nl (''=== Retrieved Documents ==='' # document_parts 1 (retrieved_chunks r)))
               | Some [] \<Rightarrow>
                   Inr (join nl (''=== Retrieved Documents ==='' # document_parts 1 (retrieved_chunks r)))
               | Some (w # ws) \<Rightarrow>
                   (case web_source_parts 1 (w # ws) of
                      Inl e \<Rightarrow> Inl e
                    | Inr parts \<Rightarrow>
                        Inr (join nl (''=== Retrieved Documents ==='' # document_parts 1 (retrieved_chunks r))
                             @ nl
                             @ join nl ((nl @ nl @ ''=== Additional Web Information ==='') # parts))))
            else Inr (join nl (''=== Retrieved Documents ==='' # document_parts 1 (retrieved_chunks r))))
    \<and> answer_prompt query r =
          (case answer_context r of
             Inl e \<Rightarrow> Inl e
           | Inr context \<Rightarrow>
               Inr (''Answer the following query using the provided context.'' @ nl
                    @ nl
                    @ ''Query: '' @ query @ nl
                    @ nl
                    @ ''Context:'' @ nl
                    @ context @ nl
                    @ nl
                    @ ''Provide a clear, accurate answer based on the context. If the context doesn't fully answer the query, acknowledge what's missing.''))
    \<and> generate_answer_with_crag self query r =
          (case answer_prompt query r of
             Inl e \<Rightarrow> Inl e
           | Inr prompt \<Rightarrow>
               generate self prompt
                 ''You are a helpful assistant that answers questions based on provided context.'' 500)
    \<and> length (document_parts 1 (retrieved_chunks r)) = length (retrieved_chunks r)
    \<and> (\<forall>k < length (retrieved_chunks r).
          document_parts 1 (retrieved_chunks r) ! k =
            nl @ ''Document '' @ str_nat (1 + k) @ '':'' @ nl @ content (retrieved_chunks r ! k))\<close>
proof -
  from assms have other: "relevance_label (evaluation r) \<noteq> PStr ''irrelevant''"
    by auto
  have ctx: "answer_context r =
           (if used_web_search r then
              (case web_results r of
                 None \<Rightarrow>
                   Inr (join nl (''=== Retrieved Documents ==='' # document_parts 1 (retrieved_chunks r)))
               | Some [] \<Rightarrow>
                   Inr (join nl (''=== Retrieved Documents ==='' # document_parts 1 (retrieved_chunks r)))
               | Some (w # ws) \<Rightarrow>
                   (case web_source_parts 1 (w # ws) of
                      Inl e \<Rightarrow> Inl e
                    | Inr parts \<Rightarrow>
                        Inr (join nl (''=== Retrieved Documents ==='' # document_parts 1 (retrieved_chunks r))
                             @ nl
                             @ join nl ((nl @ nl @ ''=== Additional Web Information ==='') # parts))))
            else Inr (join nl (''=== Retrieved Documents ==='' # document_parts 1 (retrieved_chunks r))))"
    unfolding answer_context_def other_context_parts [OF other]
    by (simp add: join_two_sections split: option.splits list.splits sum.splits)
  have prompt: \<open>answer_prompt query r =
          (case answer_context r of
             Inl e \<Rightarrow> Inl e
           | Inr context \<Rightarrow>
               Inr (''Answer the following query using the provided context.'' @ nl
                    @ nl
                    @ ''Query: '' @ query @ nl
                    @ nl
                    @ ''Context:'' @ nl
                    @ context @ nl
                    @ nl
                    @ ''Provide a clear, accurate answer based on the context. If the context doesn't fully answer the query, acknowledge what's missing.''))\<close>
    by (simp add: answer_prompt_def)
  have call: "generate_answer_with_crag self query r =
          (case answer_prompt query r of
             Inl e \<Rightarrow> Inl e
           | Inr prompt \<Rightarrow>
               generate self prompt
                 ''You are a helpful assistant that answers questions based on provided context.'' 500)"
    unfolding generate_answer_with_crag_def answer_system_prompt_def by (rule refl)
  have len: "length (document_parts 1 (retrieved_chunks r)) = length (retrieved_chunks r)"
    by (rule length_document_parts)
  have nth: "\<forall>k < length (retrieved_chunks r).
          document_parts 1 (retrieved_chunks r) ! k =
            nl @ ''Document '' @ str_nat (1 + k) @ '':'' @ nl @ content (retrieved_chunks r ! k)"
    by (simp add: document_parts_nth)
  show ?thesis
    by (intro conjI) (rule ctx, rule prompt, rule call, rule len, rule nth)
qed

theorem chunks_first_then_web_witness:
  \<open>relevance_label (evaluation (sample_result ''ambiguous'' True [sample_chunk] (Some [sample_hit])))
     = PStr ''ambiguous''
   \<and> answer_context (sample_result ''ambiguous'' True [sample_chunk] (Some [sample_hit]))
       = Inr (''=== Retrieved Documents ==='' @ nl
              @ nl @ ''Document 1:'' @ nl
              @ ''The Eiffel Tower is in Paris.'' @ nl
              @ nl @ nl @ ''=== Additional Web Information ==='' @ nl
              @ nl @ ''Web Source 1:'' @ nl
              @ ''Paris is the capital of France.'')
   \<and> generate_answer_with_crag (stub_service (Inl JSONDecodeError) no_hits) ''What is the capital of France?''
         (sample_result ''ambiguous'' True [sample_chunk] (Some [sample_hit]))
       = Inr (''Answer the following query using the provided context.'' @ nl
              @ nl
              @ ''Query: What is the capital of France?'' @ nl
              @ nl
              @ ''Context:'' @ nl
              @ ''=== Retrieved Documents ==='' @ nl
              @ nl @ ''Document 1:'' @ nl
              @ ''The Eiffel Tower is in Paris.'' @ nl
              @ nl @ nl @ ''=== Additional Web Information ==='' @ nl
              @ nl @ ''Web Source 1:'' @ nl
              @ ''Paris is the capital of France.'' @ nl
              @ nl
              @ ''Provide a clear, accurate answer based on the context. If the context doesn't fully answer the query, acknowledge what's missing.'')
   \<and> relevance_label (evaluation (sample_result ''relevant'' False [sample_chunk] (Some [sample_hit])))
     = PStr ''relevant''
   \<and> answer_context (sample_result ''relevant'' False [sample_chunk] (Some [sample_hit]))
       = Inr (''=== Retrieved Documents ==='' @ nl
              @ nl @ ''Document 1:'' @ nl
              @ ''The Eiffel Tower is in Paris.'')
   \<and> (0::nat) < length (retrieved_chunks (sample_result ''relevant'' False [sample_chunk] (Some [sample_hit])))
   \<and> document_parts 1 [sample_chunk] ! 0
       = nl @ ''Document 1:'' @ nl @ ''The Eiffel Tower is in Paris.''\<close>
proof -
  let ?a = "sample_result ''ambiguous'' True [sample_chunk] (Some [sample_hit])"
  let ?b = "sample_result ''relevant'' False [sample_chunk] (Some [sample_hit])"
  let ?svc = "stub_service (Inl JSONDecodeError) no_hits"
  have la: "relevance_label (evaluation ?a) = PStr ''ambiguous''" by (rule sample_label)
  have lb: "relevance_label (evaluation ?b) = PStr ''relevant''" by (rule sample_label)
  note A = chunks_first_then_web [OF disjI2 [OF la], of "''What is the capital of France?''" ?svc]
  note B = chunks_first_then_web [OF disjI1 [OF lb], of "''q''" ?svc]
  have ca: "answer_context ?a
       = Inr (''=== Retrieved Documents ==='' @ nl
              @ nl @ ''Document 1:'' @ nl
              @ ''The Eiffel Tower is in Paris.'' @ nl
              @ nl @ nl @ ''=== Additional Web Information ==='' @ nl
              @ nl @ ''Web Source 1:'' @ nl
              @ ''Paris is the capital of France.'')"
    using A [THEN conjunct1]
    by (simp add: sample_result_def sample_hit_def sample_chunk_def str_nat_Suc_0)
  have pa: \<open>answer_prompt ''What is the capital of France?'' ?a
       = Inr (''Answer the following query using the provided context.'' @ nl
              @ nl
              @ ''Query: What is the capital of France?'' @ nl
              @ nl
              @ ''Context:'' @ nl
              @ ''=== Retrieved Documents ==='' @ nl
              @ nl @ ''Document 1:'' @ nl
              @ ''The Eiffel Tower is in Paris.'' @ nl
              @ nl @ nl @ ''=== Additional Web Information ==='' @ nl
              @ nl @ ''Web Source 1:'' @ nl
              @ ''Paris is the capital of France.'' @ nl
              @ nl
              @ ''Provide a clear, accurate answer based on the context. If the context doesn't fully answer the query, acknowledge what's missing.'')\<close>
    using A [THEN conjunct2, THEN conjunct1] by (simp add: ca)
  have ga: \<open>generate_answer_with_crag ?svc ''What is the capital of France?'' ?a
       = Inr (''Answer the following query using the provided context.'' @ nl
              @ nl
              @ ''Query: What is the capital of France?'' @ nl
              @ nl
              @ ''Context:'' @ nl
              @ ''=== Retrieved Documents ==='' @ nl
              @ nl @ ''Document 1:'' @ nl
              @ ''The Eiffel Tower is in Paris.'' @ nl
              @ nl @ nl @ ''=== Additional Web Information ==='' @ nl
              @ nl @ ''Web Source 1:'' @ nl
              @ ''Paris is the capital of France.'' @ nl
              @ nl
              @ ''Provide a clear, accurate answer based on the context. If the context doesn't fully answer the query, acknowledge what's missing.'')\<close>
    using A [THEN conjunct2, THEN conjunct2, THEN conjunct1]
    by (simp only: pa sum.case) (simp add: stub_service_def)
  have cb: "answer_context ?b
       = Inr (''=== Retrieved Documents ==='' @ nl
              @ nl @ ''Document 1:'' @ nl
              @ ''The Eiffel Tower is in Paris.'')"
    using B [THEN conjunct1]
    by (simp add: sample_result_def sample_chunk_def str_nat_Suc_0)
  have n: "(0::nat) < length (retrieved_chunks ?b)"
    by (simp add: sample_result_def)
  have d: "document_parts 1 [sample_chunk] ! 0
       = nl @ ''Document 1:'' @ nl @ ''The Eiffel Tower is in Paris.''"
    using B [THEN conjunct2, THEN conjunct2, THEN conjunct2, THEN conjunct2, rule_format, OF n]
    by (simp add: sample_result_def sample_chunk_def str_nat_Suc_0)
  show ?thesis
    by (intro conjI) (rule la, rule ca, rule ga, rule lb, rule cb, rule n, rule d)
qed

text \<open>
  C10. A result whose web results are the empty list gives the same prompt and the same
  answer as the same result with no web results. With the label "irrelevant" the context
  is then empty; with any other label it is the retrieved documents section only, also
  when \<^verbatim>\<open>used_web_search\<close> is true.
\<close>

theorem empty_web_results_as_absent:
  "answer_prompt query (r\<lparr>web_results := Some []\<rparr>) = answer_prompt query (r\<lparr>web_results := None\<rparr>)
   \<and> generate_answer_with_crag self query (r\<lparr>web_results := Some []\<rparr>)
       = generate_answer_with_crag self query (r\<lparr>web_results := None\<rparr>)
   \<and> (relevance_label (evaluation r) = PStr ''irrelevant'' \<longrightarrow>
        answer_context (r\<lparr>web_results := Some []\<rparr>) = Inr '''')
   \<and> (relevance_label (evaluation r) \<noteq> PStr ''irrelevant'' \<longrightarrow>
        answer_context (r\<lparr>used_web_search := True, web_results := Some []\<rparr>)
          = Inr (join nl (''=== Retrieved Documents ==='' # document_parts 1 (retrieved_chunks r)))
        \<and> answer_context (r\<lparr>web_results := Some []\<rparr>)
          = Inr (join nl (''=== Retrieved Documents ==='' # document_parts 1 (retrieved_chunks r))))"
proof -
  have parts: "context_parts (r\<lparr>web_results := Some []\<rparr>) = context_parts (r\<lparr>web_results := None\<rparr>)"
    by (simp add: context_parts_def)
  then have prompt: "answer_prompt query (r\<lparr>web_results := Some []\<rparr>)
                       = answer_prompt query (r\<lparr>web_results := None\<rparr>)"
    by (simp add: answer_prompt_def answer_context_def)
  then have answer: "generate_answer_with_crag self query (r\<lparr>web_results := Some []\<rparr>)
       = generate_answer_with_crag self query (r\<lparr>web_results := None\<rparr>)"
    by (simp add: generate_answer_with_crag_def)
  have irr: "relevance_label (evaluation r) = PStr ''irrelevant'' \<longrightarrow>
        answer_context (r\<lparr>web_results := Some []\<rparr>) = Inr ''''"
    by (simp add: answer_context_def context_parts_def py_eq_str_def)
  have other: "relevance_label (evaluation r) \<noteq> PStr ''irrelevant'' \<longrightarrow>
        answer_context (r\<lparr>used_web_search := True, web_results := Some []\<rparr>)
          = Inr (join nl (''=== Retrieved Documents ==='' # document_parts 1 (retrieved_chunks r)))
        \<and> answer_context (r\<lparr>web_results := Some []\<rparr>)
          = Inr (join nl (''=== Retrieved Documents ==='' # document_parts 1 (retrieved_chunks r)))"
    by (simp add: answer_context_def context_parts_def py_eq_str_def)
  from prompt answer irr other show ?thesis by blast
qed

theorem empty_web_results_as_absent_witness:
  "relevance_label (evaluation (sample_result ''irrelevant'' True [sample_chunk] (Some [sample_hit])))
     = PStr ''irrelevant''
   \<and> answer_context (sample_result ''irrelevant'' True [sample_chunk] (Some []))
       = Inr ''''
   \<and> answer_context (sample_result ''irrelevant'' True [sample_chunk] None)
       = Inr ''''
   \<and> answer_context (sample_result ''ambiguous'' True [sample_chunk] (Some []))
       = Inr (''=== Retrieved Documents ==='' @ nl @ nl @ ''Document 1:'' @ nl @ ''The Eiffel Tower is in Paris.'')
   \<and> answer_prompt ''q'' (sample_result ''ambiguous'' True [sample_chunk] (Some []))
       = answer_prompt ''q'' (sample_result ''ambiguous'' True [sample_chunk] None)
   \<and> answer_prompt ''q'' (sample_result ''irrelevant'' True [sample_chunk] (Some []))
       = answer_prompt ''q'' (sample_result ''irrelevant'' True [sample_chunk] None)"
proof -
  let ?i = "sample_result ''irrelevant'' True [sample_chunk] (Some [sample_hit])"
  let ?a = "sample_result ''ambiguous'' True [sample_chunk] (Some [sample_hit])"
  have upd: "\<And>lbl w. (sample_result lbl True [sample_chunk] (Some [sample_hit]))\<lparr>web_results := w\<rparr>
               = sample_result lbl True [sample_chunk] w"
    by (simp add: sample_result_def)
  have upd': "\<And>lbl w. (sample_result lbl True [sample_chunk] (Some [sample_hit]))
                 \<lparr>used_web_search := True, web_results := w\<rparr>
               = sample_result lbl True [sample_chunk] w"
    by (simp add: sample_result_def)
  have li: "relevance_label (evaluation ?i) = PStr ''irrelevant''" by (rule sample_label)
  have la: "relevance_label (evaluation ?a) \<noteq> PStr ''irrelevant''" by (simp add: sample_label)
  note I = empty_web_results_as_absent [of "''q''" ?i, unfolded upd upd']
  note A = empty_web_results_as_absent [of "''q''" ?a, unfolded upd upd']
  have e1: "answer_context (sample_result ''irrelevant'' True [sample_chunk] (Some [])) = Inr ''''"
    using I li by blast
  have p1: "answer_prompt ''q'' (sample_result ''irrelevant'' True [sample_chunk] (Some []))
       = answer_prompt ''q'' (sample_result ''irrelevant'' True [sample_chunk] None)"
    using I by blast
  have p2: "answer_prompt ''q'' (sample_result ''ambiguous'' True [sample_chunk] (Some []))
       = answer_prompt ''q'' (sample_result ''ambiguous'' True [sample_chunk] None)"
    using A by blast
  have e2: "answer_context (sample_result ''irrelevant'' True [sample_chunk] None) = Inr ''''"
    by (simp add: answer_context_def context_parts_def py_eq_str_def sample_result_def graded_def)
  have "answer_context (sample_result ''ambiguous'' True [sample_chunk] (Some []))
          = Inr (join nl (''=== Retrieved Documents ===''
                  # document_parts 1 (retrieved_chunks ?a)))"
    using A la by blast
  then have e3: "answer_context (sample_result ''ambiguous'' True [sample_chunk] (Some []))
       = Inr (''=== Retrieved Documents ==='' @ nl @ nl @ ''Document 1:'' @ nl @ ''The Eiffel Tower is in Paris.'')"
    by (simp add: sample_result_def sample_chunk_def str_nat_Suc_0)
  from li e1 e2 e3 p2 p1 show ?thesis by blast
qed

end
